theory Spec2Isabelle
  imports Main
begin

section \<open>EFB Telegram Master channel: configuration loading and the error callback\<close>

text \<open>
  A shallow embedding of \<^verbatim>\<open>TelegramChannel.load_config\<close> and
  \<^verbatim>\<open>TelegramChannel.error\<close> of
  \<^verbatim>\<open>ehforwarderbot/channels/master/blueset/telegram/__init__.py\<close>.
  Python integers are \<^typ>\<open>int\<close>. The strings of the configuration are lists of
  Unicode code points, since \<^verbatim>\<open>load_config\<close> classifies their characters; the
  texts the callback builds are of type \<^typ>\<open>string\<close>.
\<close>

subsection \<open>Strings: decimal rendering, substring test, HTML escaping\<close>

definition digit_char :: "nat \<Rightarrow> char" where
  "digit_char d = char_of (48 + d)"

text \<open>\<^verbatim>\<open>str(n)\<close> for a natural number and for an integer.\<close>

function str_nat :: "nat \<Rightarrow> string" where
  "str_nat n = (if n < 10 then [digit_char n] else str_nat (n div 10) @ [digit_char (n mod 10)])"
  by pat_completeness auto
termination
  by (relation "measure (\<lambda>n. n)") auto

declare str_nat.simps [simp del]

definition str_int :: "int \<Rightarrow> string" where
  "str_int i = (if i < 0 then CHR ''-'' # str_nat (nat (- i)) else str_nat (nat i))"

fun starts_with :: "string \<Rightarrow> string \<Rightarrow> bool" where
  "starts_with [] s = True"
| "starts_with (p # ps) [] = False"
| "starts_with (p # ps) (c # cs) = (p = c \<and> starts_with ps cs)"

text \<open>\<^verbatim>\<open>needle in s\<close> on strings: \<open>needle\<close> occurs in \<open>s\<close> as a contiguous run.\<close>

fun contains :: "string \<Rightarrow> string \<Rightarrow> bool" where
  "contains needle [] = (needle = [])"
| "contains needle (c # cs) = (starts_with needle (c # cs) \<or> contains needle cs)"

text \<open>\<^verbatim>\<open>html.escape(s)\<close> with its default \<^verbatim>\<open>quote=True\<close>.\<close>

definition escape_char :: "char \<Rightarrow> string" where
  "escape_char c =
     (if c = CHR ''&'' then ''&amp;''
      else if c = CHR ''<'' then ''&lt;''
      else if c = CHR ''>'' then ''&gt;''
      else if c = CHR 0x22 then ''&quot;''
      else if c = CHR 0x27 then ''&#x27;''
      else [c])"

definition html_escape :: "string \<Rightarrow> string" where
  "html_escape s = concat (map escape_char s)"

definition nl :: string where
  "nl = [CHR 0x0A]"

subsection \<open>Configuration loading\<close>

text \<open>
  A string of the configuration is a Python \<^verbatim>\<open>str\<close>: a list of Unicode code points.
  \<^verbatim>\<open>str.isdigit\<close> and \<^verbatim>\<open>int\<close> read two things of the interpreter that runs
  the channel: the Numeric_Type its Unicode database gives a character, which is Decimal
  with the value of the digit, Digit, or neither; and the limit
  \<^verbatim>\<open>sys.get_int_max_str_digits()\<close> on the length of a string that \<^verbatim>\<open>int\<close>
  converts, 0 standing for no limit.
\<close>

type_synonym py_str = "nat list"

datatype numeric_type = Decimal nat | Digit | Not_numeric

record interpreter =
  numeric_type_of :: "nat \<Rightarrow> numeric_type"
  int_max_str_digits :: nat

text \<open>The Python string of an ASCII literal.\<close>

definition ascii :: "string \<Rightarrow> py_str" where
  "ascii s = map of_char s"

text \<open>
  The values \<^verbatim>\<open>yaml.load\<close> produces. A Python \<^verbatim>\<open>bool\<close> is an instance of
  \<^verbatim>\<open>int\<close>, which \<open>isinstance_int\<close> records.
\<close>

datatype yaml =
    YNull
  | YBool bool
  | YInt int
  | YStr py_str
  | YList "yaml list"
  | YMap "(py_str \<times> yaml) list"

datatype config_file = Missing | Document yaml

text \<open>
  What \<^verbatim>\<open>load_config\<close> raises: its own three \<^verbatim>\<open>ValueError\<close>s, and the
  \<^verbatim>\<open>ValueError\<close> of \<^verbatim>\<open>int\<close> on a string it does not convert.
\<close>

datatype config_error =
    FileNotFoundError
  | AttributeError_get
  | ValueError_token
  | ValueError_admins
  | ValueError_admin_id yaml
  | ValueError_int py_str

fun is_ValueError :: "config_error \<Rightarrow> bool" where
  "is_ValueError ValueError_token = True"
| "is_ValueError ValueError_admins = True"
| "is_ValueError (ValueError_admin_id v) = True"
| "is_ValueError (ValueError_int s) = True"
| "is_ValueError e = False"

text \<open>
  \<^verbatim>\<open>s.isdigit()\<close>: at least one character, and every character of Numeric_Type Digit
  or Decimal.
\<close>

definition is_digit_char :: "interpreter \<Rightarrow> nat \<Rightarrow> bool" where
  "is_digit_char py c \<longleftrightarrow> numeric_type_of py c \<noteq> Not_numeric"

definition isdigit :: "interpreter \<Rightarrow> py_str \<Rightarrow> bool" where
  "isdigit py s \<longleftrightarrow> s \<noteq> [] \<and> list_all (is_digit_char py) s"

text \<open>
  \<^verbatim>\<open>int(s)\<close> in base ten, as the source applies it: to a string that passed
  \<^verbatim>\<open>isdigit\<close>, which holds no sign, blank or underscore. The digits are read from
  the left; a character that is no decimal digit raises \<^verbatim>\<open>ValueError\<close>, and so does
  a string longer than the limit.
\<close>

fun int_digits :: "interpreter \<Rightarrow> py_str \<Rightarrow> nat \<Rightarrow> nat option" where
  "int_digits py [] acc = Some acc"
| "int_digits py (c # cs) acc =
     (case numeric_type_of py c of
        Decimal d \<Rightarrow> int_digits py cs (10 * acc + d)
      | _ \<Rightarrow> None)"

definition int_of_str :: "interpreter \<Rightarrow> py_str \<Rightarrow> config_error + int" where
  "int_of_str py s =
     (if s = [] then Inl (ValueError_int s)
      else if int_max_str_digits py > 0 \<and> length s > int_max_str_digits py
        then Inl (ValueError_int s)
      else (case int_digits py s 0 of
              None \<Rightarrow> Inl (ValueError_int s)
            | Some n \<Rightarrow> Inr (int n)))"

fun isinstance_int :: "yaml \<Rightarrow> bool" where
  "isinstance_int (YInt i) = True"
| "isinstance_int (YBool b) = True"
| "isinstance_int v = False"

fun isinstance_str :: "yaml \<Rightarrow> bool" where
  "isinstance_str (YStr s) = True"
| "isinstance_str v = False"

text \<open>\<^verbatim>\<open>isinstance(v, str) and v.isdigit()\<close>\<close>

fun is_digit_str :: "interpreter \<Rightarrow> yaml \<Rightarrow> bool" where
  "is_digit_str py (YStr s) = isdigit py s"
| "is_digit_str py v = False"

text \<open>\<^verbatim>\<open>int(v)\<close>, applied by the source only to strings.\<close>

fun to_int :: "interpreter \<Rightarrow> yaml \<Rightarrow> config_error + yaml" where
  "to_int py (YStr s) = (case int_of_str py s of Inl e \<Rightarrow> Inl e | Inr n \<Rightarrow> Inr (YInt n))"
| "to_int py v = Inr v"

text \<open>\<^verbatim>\<open>data.get(key, None)\<close>\<close>

definition get :: "(py_str \<rightharpoonup> yaml) \<Rightarrow> py_str \<Rightarrow> yaml" where
  "get data key = (case data key of None \<Rightarrow> YNull | Some v \<Rightarrow> v)"

text \<open>
  The first statement of the loop's body: an entry that is a string passing
  \<^verbatim>\<open>isdigit\<close> is replaced by \<^verbatim>\<open>int\<close> of it, which may raise.
\<close>

definition convert :: "interpreter \<Rightarrow> yaml \<Rightarrow> config_error + yaml" where
  "convert py a = (if is_digit_str py a then to_int py a else Inr a)"

text \<open>
  The loop \<^verbatim>\<open>for i in range(len(data['admins']))\<close>: entry by entry, the conversion,
  and the first entry that is then no integer raises.
\<close>

fun check_admins :: "interpreter \<Rightarrow> yaml list \<Rightarrow> config_error + yaml list" where
  "check_admins py [] = Inr []"
| "check_admins py (a # as) =
     (case convert py a of
        Inl e \<Rightarrow> Inl e
      | Inr a' \<Rightarrow>
          if \<not> isinstance_int a' then Inl (ValueError_admin_id a')
          else (case check_admins py as of
                  Inl e \<Rightarrow> Inl e
                | Inr as' \<Rightarrow> Inr (a' # as')))"

text \<open>The body of the \<^verbatim>\<open>with\<close> block, on the parsed mapping.\<close>

definition verify ::
  "interpreter \<Rightarrow> (py_str \<rightharpoonup> yaml) \<Rightarrow> config_error + (py_str \<rightharpoonup> yaml)" where
  "verify py data =
     (if \<not> isinstance_str (get data (ascii ''token'')) then Inl ValueError_token
      else
        let data1 = (if isinstance_int (get data (ascii ''admins''))
                     then data(ascii ''admins'' \<mapsto> YList [get data (ascii ''admins'')])
                     else data)
        in case (if is_digit_str py (get data1 (ascii ''admins''))
                 then (case to_int py (get data1 (ascii ''admins'')) of
                         Inl e \<Rightarrow> Inl e
                       | Inr n \<Rightarrow> Inr (data1(ascii ''admins'' \<mapsto> YList [n])))
                 else Inr data1) of
             Inl e \<Rightarrow> Inl e
           | Inr data2 \<Rightarrow>
               (case get data2 (ascii ''admins'') of
                  YList as \<Rightarrow>
                    (if length as < 1 then Inl ValueError_admins
                     else (case check_admins py as of
                             Inl e \<Rightarrow> Inl e
                           | Inr as' \<Rightarrow> Inr (data2(ascii ''admins'' \<mapsto> YList as'))))
                | _ \<Rightarrow> Inl ValueError_admins))"

text \<open>
  \<^verbatim>\<open>load_config\<close>: a missing file raises \<^verbatim>\<open>FileNotFoundError\<close>; a document that
  is no mapping has no \<^verbatim>\<open>get\<close>; in a mapping the last binding of a key counts.
\<close>

definition load_config ::
  "interpreter \<Rightarrow> config_file \<Rightarrow> config_error + (py_str \<rightharpoonup> yaml)" where
  "load_config py f =
     (case f of
        Missing \<Rightarrow> Inl FileNotFoundError
      | Document (YMap kvs) \<Rightarrow> verify py (map_of (rev kvs))
      | Document _ \<Rightarrow> Inl AttributeError_get)"

text \<open>
  The normalisation in words. A decimal string is a non-empty string of decimal digits
  that is no longer than the limit; the number it stands for is the sum of its digits,
  each times ten to the number of digits after it. A single integer or a decimal string
  becomes a one-element list, a list stays, anything else is no list.
\<close>

fun digit_value :: "numeric_type \<Rightarrow> nat option" where
  "digit_value (Decimal d) = Some d"
| "digit_value t = None"

definition decimal_str :: "interpreter \<Rightarrow> py_str \<Rightarrow> bool" where
  "decimal_str py s \<longleftrightarrow>
     s \<noteq> [] \<and> list_all (\<lambda>c. digit_value (numeric_type_of py c) \<noteq> None) s \<and>
     (int_max_str_digits py = 0 \<or> length s \<le> int_max_str_digits py)"

fun place_value :: "interpreter \<Rightarrow> py_str \<Rightarrow> nat" where
  "place_value py [] = 0"
| "place_value py (c # cs) =
     (case digit_value (numeric_type_of py c) of None \<Rightarrow> 0 | Some d \<Rightarrow> d) * 10 ^ length cs
     + place_value py cs"

fun is_decimal_str :: "interpreter \<Rightarrow> yaml \<Rightarrow> bool" where
  "is_decimal_str py (YStr s) = decimal_str py s"
| "is_decimal_str py v = False"

fun as_number :: "interpreter \<Rightarrow> yaml \<Rightarrow> yaml" where
  "as_number py (YStr s) = YInt (int (place_value py s))"
| "as_number py v = v"

fun normalized_admins :: "interpreter \<Rightarrow> yaml \<Rightarrow> yaml list option" where
  "normalized_admins py (YInt i) = Some [YInt i]"
| "normalized_admins py (YBool b) = Some [YBool b]"
| "normalized_admins py (YStr s) =
     (if decimal_str py s then Some [YInt (int (place_value py s))] else None)"
| "normalized_admins py (YList xs) = Some xs"
| "normalized_admins py v = None"

definition admin_ok :: "interpreter \<Rightarrow> yaml \<Rightarrow> bool" where
  "admin_ok py a \<longleftrightarrow> isinstance_int a \<or> is_decimal_str py a"

definition config_rejected :: "interpreter \<Rightarrow> (py_str \<rightharpoonup> yaml) \<Rightarrow> bool" where
  "config_rejected py data \<longleftrightarrow>
     \<not> isinstance_str (get data (ascii ''token''))
     \<or> (case normalized_admins py (get data (ascii ''admins'')) of
           None \<Rightarrow> True
         | Some as \<Rightarrow> as = [] \<or> \<not> list_all (admin_ok py) as)"

subsection \<open>Exceptions, updates and the channel's state\<close>

text \<open>
  The exception classes the callback tells apart, those of \<^verbatim>\<open>telegram.error\<close>
  (\<^verbatim>\<open>BadRequest\<close> and \<^verbatim>\<open>TimedOut\<close> are subclasses of \<^verbatim>\<open>NetworkError\<close>, all
  others direct subclasses of \<^verbatim>\<open>TelegramError\<close>; \<^verbatim>\<open>ChatMigrated\<close> carries
  \<^verbatim>\<open>new_chat_id\<close>), and the Python exceptions the callback can raise itself.
  An exception value is its class with its \<^verbatim>\<open>str()\<close>.
\<close>

datatype exc_class =
    TelegramError
  | Unauthorized
  | InvalidToken
  | NetworkError
  | BadRequest
  | TimedOut
  | ChatMigrated int
  | RetryAfter
  | AttributeError
  | IndexError
  | ConstraintViolation
  | OtherException

datatype exc = Exc exc_class string

fun class_of :: "exc \<Rightarrow> exc_class" where
  "class_of (Exc c m) = c"

fun str_exc :: "exc \<Rightarrow> string" where
  "str_exc (Exc c m) = m"

text \<open>\<^verbatim>\<open>isinstance(e, telegram.error.NetworkError)\<close>, its subclasses included.\<close>

definition isinstance_NetworkError :: "exc_class \<Rightarrow> bool" where
  "isinstance_NetworkError c \<longleftrightarrow> c = NetworkError \<or> c = BadRequest \<or> c = TimedOut"

text \<open>
  An update as the callback reads it: its \<^verbatim>\<open>str()\<close> and its \<^verbatim>\<open>message\<close>, which is
  \<^verbatim>\<open>None\<close> for an update of another kind; of a message, the \<^verbatim>\<open>chat_id\<close>. The
  callback's \<^verbatim>\<open>update\<close> argument itself may be \<^verbatim>\<open>None\<close>.
\<close>

record tg_message =
  chat_id :: int

record tg_update =
  message :: "tg_message option"
  update_str :: string

definition str_update :: "tg_update option \<Rightarrow> string" where
  "str_update u = (case u of None \<Rightarrow> ''None'' | Some v \<Rightarrow> update_str v)"

datatype level = DEBUG | ERROR | CRITICAL

datatype parse_mode = Plain | HTML

text \<open>
  The requests the callback hands to Telegram: \<^verbatim>\<open>self.bot_manager.send_message\<close>,
  \<^verbatim>\<open>bot.send_message\<close> and \<^verbatim>\<open>update.message.reply_text\<close> (the chat of the message
  replied to, the text, the parse mode).
\<close>

datatype call =
    BotManagerSend int string parse_mode
  | BotSend int string parse_mode
  | ReplyText int string parse_mode

text \<open>
  What the callback reads and writes of \<^verbatim>\<open>self\<close>: the counter \<^verbatim>\<open>timeout_count\<close>, the
  rows \<open>(master_uid, slave_uid)\<close> of the chat association table behind \<^verbatim>\<open>self.db\<close>,
  the records given to \<^verbatim>\<open>self.logger\<close>, and every request handed to Telegram with its
  outcome (\<open>None\<close>: delivered, \<open>Some e\<close>: the call raised \<open>e\<close>).
\<close>

record channel =
  timeout_count :: int
  chat_assoc :: "(string \<times> string) list"
  log_records :: "(level \<times> string) list"
  outbox :: "(call \<times> exc option) list"

text \<open>
  What the callback only reads: \<^verbatim>\<open>self.config['admins']\<close>, the flag
  \<^verbatim>\<open>network_error_prompt_interval\<close>, \<^verbatim>\<open>self.channel_id\<close>, and Telegram's answer to the
  \<open>n\<close>-th request of the run.
\<close>

record env =
  admins :: "int list"
  network_error_prompt_interval :: int
  channel_id :: string
  gateway :: "nat \<Rightarrow> call \<Rightarrow> exc option"

definition logger :: "level \<Rightarrow> string \<Rightarrow> channel \<Rightarrow> channel" where
  "logger lv text s = s\<lparr>log_records := log_records s @ [(lv, text)]\<rparr>"

definition send :: "env \<Rightarrow> call \<Rightarrow> channel \<Rightarrow> (exc + unit) \<times> channel" where
  "send env c s =
     (let r = gateway env (length (outbox s)) c;
          s' = s\<lparr>outbox := outbox s @ [(c, r)]\<rparr>
      in case r of None \<Rightarrow> (Inr (), s') | Some e \<Rightarrow> (Inl e, s'))"

text \<open>\<^verbatim>\<open>self.config['admins'][0]\<close>\<close>

definition admin0 :: "env \<Rightarrow> exc + int" where
  "admin0 env =
     (case admins env of
        [] \<Rightarrow> Inl (Exc IndexError ''list index out of range'')
      | a # _ \<Rightarrow> Inr a)"

definition send_admin :: "env \<Rightarrow> (int \<Rightarrow> call) \<Rightarrow> channel \<Rightarrow> (exc + unit) \<times> channel" where
  "send_admin env mk s =
     (case admin0 env of
        Inl e \<Rightarrow> (Inl e, s)
      | Inr a \<Rightarrow> send env (mk a) s)"

subsection \<open>The chat association table\<close>

text \<open>
  Modelled from the spec: \<^verbatim>\<open>etm_utils.chat_id_to_str\<close> (module \<^verbatim>\<open>utils\<close>), the key
  \<^verbatim>\<open>"{originSystem}#{conversationId}"\<close> of a conversation.
\<close>

definition chat_id_to_str :: "string \<Rightarrow> int \<Rightarrow> string" where
  "chat_id_to_str channel cid = channel @ ''#'' @ str_int cid"

text \<open>
  Modelled from the spec: \<^verbatim>\<open>db.get_chat_assoc(master_uid=...)\<close> (module \<^verbatim>\<open>db\<close>),
  \<open>FindByMaster\<close>: the slave refs bound to a master, none if there is no row.
\<close>

definition get_chat_assoc :: "string \<Rightarrow> (string \<times> string) list \<Rightarrow> string list" where
  "get_chat_assoc master_uid rows = map snd (filter (\<lambda>r. fst r = master_uid) rows)"

text \<open>
  Modelled from the spec: \<open>FindBySlave\<close> (module \<^verbatim>\<open>db\<close>), the master of a slave ref, if
  any: what a reader of the table sees for that slave ref.
\<close>

definition find_by_slave :: "string \<Rightarrow> (string \<times> string) list \<Rightarrow> string option" where
  "find_by_slave slave_uid rows = map_option fst (find (\<lambda>r. snd r = slave_uid) rows)"

text \<open>
  Modelled from the spec: \<^verbatim>\<open>db.remove_chat_assoc(slave_uid=...)\<close> (module \<^verbatim>\<open>db\<close>),
  \<open>Remove\<close>: the row of the slave ref is deleted; no row, no error.
\<close>

definition remove_chat_assoc :: "string \<Rightarrow> (string \<times> string) list \<Rightarrow> (string \<times> string) list" where
  "remove_chat_assoc slave_uid rows = filter (\<lambda>r. snd r \<noteq> slave_uid) rows"

text \<open>
  Modelled from the spec: \<^verbatim>\<open>db.add_chat_assoc(master_uid=..., slave_uid=...)\<close> (module
  \<^verbatim>\<open>db\<close>), \<open>Put\<close>: fails with \<open>ConstraintViolation\<close> if the slave ref is already bound
  to a different master ref, else the association is recorded.
\<close>

definition add_chat_assoc ::
  "string \<Rightarrow> string \<Rightarrow> (string \<times> string) list \<Rightarrow> exc + (string \<times> string) list" where
  "add_chat_assoc master_uid slave_uid rows =
     (case find_by_slave slave_uid rows of
        None \<Rightarrow> Inr (rows @ [(master_uid, slave_uid)])
      | Some m \<Rightarrow>
          if m = master_uid then Inr rows
          else Inl (Exc ConstraintViolation ''slave chat is bound to another master chat''))"

subsection \<open>The texts the callback logs and sends\<close>

definition conflict_text :: string where
  "conflict_text = ''Conflict: terminated by other long poll or webhook (409)''"

definition conflict_msg :: string where
  "conflict_msg =
     ''Conflicted polling detected. If this error persists, '' @
     ''please ensure you are running only one instance of this Telegram bot.''"

definition unauthorized_log :: "tg_update option \<Rightarrow> exc \<Rightarrow> string" where
  "unauthorized_log update err =
     ''The bot is not authorised to send update:'' @ nl @ str_update update @ nl @ str_exc err"

definition bad_request_log :: "tg_update option \<Rightarrow> exc \<Rightarrow> string" where
  "bad_request_log update err =
     ''Message request is invalid.'' @ nl @ str_update update @ nl @ str_exc err"

definition bad_request_alert :: "tg_update option \<Rightarrow> exc \<Rightarrow> string" where
  "bad_request_alert update err =
     ''Message request is invalid.'' @ nl @ html_escape (str_exc err) @ nl @
     ''<code>'' @ html_escape (str_update update) @ ''</code>)''"

definition network_log :: "int \<Rightarrow> tg_update option \<Rightarrow> exc \<Rightarrow> string" where
  "network_log count update err =
     ''Poor internet connection detected.'' @ nl @
     ''Number of network error occurred since last startup: '' @ str_int count @ nl @
     [CHR 0x5C] @ str_exc err @ nl @ ''Update: '' @ str_update update"

definition dropped_text :: "exc \<Rightarrow> string" where
  "dropped_text err =
     ''This message is not processed due to poor internet environment of the server.'' @ nl @
     ''<code>'' @ html_escape (str_exc err) @ ''</code>''"

definition network_alert :: "int \<Rightarrow> string" where
  "network_alert count =
     ''<b>EFB Telegram Master channel</b>'' @ nl @
     ''You may have a poor internet connection on your server. '' @
     ''Currently '' @ str_int count @ '' network errors are detected.'' @ nl @
     ''For more details, please refer to the log.''"

definition migrating_log :: "string \<Rightarrow> int \<Rightarrow> int \<Rightarrow> string" where
  "migrating_log slave_uid old_id new_id =
     ''Migrating slave chat '' @ slave_uid @ '' from Telegram chat '' @ str_int old_id @
     '' to '' @ str_int new_id @ ''.''"

definition migration_text :: "int \<Rightarrow> string" where
  "migration_text count =
     ''Chat migration detected.'' @
     ''All remote chats ('' @ str_int count @ '') are now linked to this new group.''"

definition unhandled_alert :: "tg_update option \<Rightarrow> exc \<Rightarrow> string" where
  "unhandled_alert update err =
     ''EFB Telegram Master channel encountered error <code>'' @ html_escape (str_exc err) @
     ''</code> caused by update <code>'' @ html_escape (str_update update) @ ''</code>.''"

definition send_failed_log :: string where
  "send_failed_log = ''Failed to send error message through Telegram.''"

definition unhandled_log :: "tg_update option \<Rightarrow> exc \<Rightarrow> string" where
  "unhandled_log update err =
     ''Unhandled telegram bot error!'' @ nl @
     ''Update '' @ str_update update @ '' caused error '' @ str_exc err"

subsection \<open>The error callback\<close>

text \<open>
  One turn of the loop over the slave chats of the old group: the debug record, the row
  removed, the row added under the new master, the count raised.
\<close>

fun migrate_loop ::
  "env \<Rightarrow> int \<Rightarrow> int \<Rightarrow> string list \<Rightarrow> int \<Rightarrow> channel \<Rightarrow> (exc + int) \<times> channel" where
  "migrate_loop env old_id new_id [] count s = (Inr count, s)"
| "migrate_loop env old_id new_id (i # rest) count s =
     (let s1 = logger DEBUG (migrating_log i old_id new_id) s;
          s2 = s1\<lparr>chat_assoc := remove_chat_assoc i (chat_assoc s1)\<rparr>
      in case add_chat_assoc (chat_id_to_str (channel_id env) new_id) i (chat_assoc s2) of
           Inl e \<Rightarrow> (Inl e, s2)
         | Inr rows \<Rightarrow>
             migrate_loop env old_id new_id rest (count + 1) (s2\<lparr>chat_assoc := rows\<rparr>))"

text \<open>
  \<^verbatim>\<open>error(self, bot, update, error)\<close>. The result is \<open>Inr ()\<close> when the callback returns
  and \<open>Inl e\<close> when it raises \<open>e\<close>, with the channel as the callback left it. An
  exception raised inside an \<^verbatim>\<open>except\<close> clause is not caught by the clauses after it.
\<close>

definition error :: "env \<Rightarrow> tg_update option \<Rightarrow> exc \<Rightarrow> channel \<Rightarrow> (exc + unit) \<times> channel" where
  "error env update err s =
     (if contains conflict_text (str_exc err) then
        send_admin env (\<lambda>a. BotManagerSend a conflict_msg Plain) (logger CRITICAL conflict_msg s)
      else if class_of err = Unauthorized then
        (Inr (), logger ERROR (unauthorized_log update err) s)
      else if class_of err = BadRequest then
        send_admin env (\<lambda>a. BotManagerSend a (bad_request_alert update err) HTML)
          (logger ERROR (bad_request_log update err) s)
      else if class_of err = TimedOut \<or> isinstance_NetworkError (class_of err) then
        (let s1 = s\<lparr>timeout_count := timeout_count s + 1\<rparr>;
             s2 = logger ERROR (network_log (timeout_count s1) update err) s1;
             replied =
               (case update of
                  None \<Rightarrow> (Inr (), s2)
                | Some u \<Rightarrow>
                    (case message u of
                       None \<Rightarrow> (Inr (), s2)
                     | Some m \<Rightarrow> send env (ReplyText (chat_id m) (dropped_text err) HTML) s2))
         in case replied of
              (Inl e, s3) \<Rightarrow> (Inl e, s3)
            | (Inr _, s3) \<Rightarrow>
                (let timeout_interval = network_error_prompt_interval env
                 in if timeout_interval > 0 \<and> timeout_count s3 mod timeout_interval = 0
                    then send_admin env
                           (\<lambda>a. BotManagerSend a (network_alert (timeout_count s3)) HTML) s3
                    else (Inr (), s3)))
      else
        (case class_of err of
           ChatMigrated new_id \<Rightarrow>
             (case update of
                None \<Rightarrow>
                  (Inl (Exc AttributeError ''NoneType object has no attribute message''), s)
              | Some u \<Rightarrow>
                  (case message u of
                     None \<Rightarrow>
                       (Inl (Exc AttributeError ''NoneType object has no attribute chat_id''), s)
                   | Some m \<Rightarrow>
                       (let old_id = chat_id m
                        in case migrate_loop env old_id new_id
                                  (get_chat_assoc (chat_id_to_str (channel_id env) old_id)
                                     (chat_assoc s)) 0 s of
                             (Inl e, s1) \<Rightarrow> (Inl e, s1)
                           | (Inr count, s1) \<Rightarrow>
                               send env (BotSend new_id (migration_text count) Plain) s1)))
         | _ \<Rightarrow>
             (case send_admin env (\<lambda>a. BotSend a (unhandled_alert update err) HTML) s of
                (Inl e, s1) \<Rightarrow>
                  (Inr (), logger ERROR (unhandled_log update err)
                             (logger ERROR send_failed_log s1))
              | (Inr _, s1) \<Rightarrow> (Inr (), logger ERROR (unhandled_log update err) s1))))"

text \<open>
  The branch of \<open>error\<close> an exception reaches, under the names the specification gives
  the branches; the tests and their order are those of \<open>error\<close>.
\<close>

datatype category =
    PollingConflict
  | Unauthorized_category
  | InvalidRequest
  | NetworkTransient
  | ConversationMigrated
  | Unclassified

definition classify :: "exc \<Rightarrow> category" where
  "classify err =
     (if contains conflict_text (str_exc err) then PollingConflict
      else if class_of err = Unauthorized then Unauthorized_category
      else if class_of err = BadRequest then InvalidRequest
      else if class_of err = TimedOut \<or> isinstance_NetworkError (class_of err)
        then NetworkTransient
      else (case class_of err of
              ChatMigrated new_id \<Rightarrow> ConversationMigrated
            | _ \<Rightarrow> Unclassified))"

fun is_reply :: "call \<Rightarrow> bool" where
  "is_reply (ReplyText c text pm) = True"
| "is_reply c = False"

text \<open>
  The table as a reader finds it while one row is migrated: before
  \<^verbatim>\<open>remove_chat_assoc\<close>, between it and \<^verbatim>\<open>add_chat_assoc\<close>, and after.
\<close>

definition migrate_row_states ::
  "string \<Rightarrow> string \<Rightarrow> (string \<times> string) list \<Rightarrow> (string \<times> string) list list" where
  "migrate_row_states new_uid i rows =
     (let removed = remove_chat_assoc i rows
      in [rows, removed,
          (case add_chat_assoc new_uid i removed of Inl e \<Rightarrow> removed | Inr added \<Rightarrow> added)])"

subsection \<open>Scenarios\<close>

text \<open>
  Telegram as it answers in the scenarios below: every request delivered; every reply to a
  message timing out; every request refused; the first request delivered and every later
  one refused.
\<close>

definition gateway_up :: "nat \<Rightarrow> call \<Rightarrow> exc option" where
  "gateway_up n c = None"

definition gateway_replies_time_out :: "nat \<Rightarrow> call \<Rightarrow> exc option" where
  "gateway_replies_time_out n c =
     (if is_reply c then Some (Exc TimedOut ''Timed out'') else None)"

definition gateway_down :: "nat \<Rightarrow> call \<Rightarrow> exc option" where
  "gateway_down n c = Some (Exc NetworkError ''Connection refused'')"

definition gateway_first_only :: "nat \<Rightarrow> call \<Rightarrow> exc option" where
  "gateway_first_only n c =
     (if n = 0 then None else Some (Exc NetworkError ''Connection refused''))"

text \<open>
  A channel with one admin, an alert on every fifth network error, and the given Telegram;
  a channel's state with the counter at \<open>n\<close> and the given rows.
\<close>

definition env_demo :: "(nat \<Rightarrow> call \<Rightarrow> exc option) \<Rightarrow> env" where
  "env_demo gw =
     \<lparr>admins = [1001], network_error_prompt_interval = 5, channel_id = ''telegram'',
      gateway = gw\<rparr>"

definition channel_demo :: "int \<Rightarrow> (string \<times> string) list \<Rightarrow> channel" where
  "channel_demo n rows =
     \<lparr>timeout_count = n, chat_assoc = rows, log_records = [], outbox = []\<rparr>"

definition update_demo :: "int \<Rightarrow> tg_update" where
  "update_demo cid = \<lparr>message = Some \<lparr>chat_id = cid\<rparr>, update_str = ''update''\<rparr>"

definition callback_query_demo :: tg_update where
  "callback_query_demo = \<lparr>message = None, update_str = ''callback query''\<rparr>"

text \<open>
  An interpreter with the default limit of 4300 digits. Of the Unicode database it knows
  the ASCII digits and the Arabic-Indic digits U+0660 to U+0669, which are decimal digits,
  and the superscripts U+00B2, U+00B3 and U+00B9, which are digits that are not decimal.
\<close>

definition interpreter_demo :: interpreter where
  "interpreter_demo =
     \<lparr>numeric_type_of =
        (\<lambda>c. if 48 \<le> c \<and> c \<le> 57 then Decimal (c - 48)
             else if 1632 \<le> c \<and> c \<le> 1641 then Decimal (c - 1632)
             else if c = 178 \<or> c = 179 \<or> c = 185 then Digit
             else Not_numeric),
      int_max_str_digits = 4300\<rparr>"

section \<open>Properties\<close>

subsection \<open>Configuration loading\<close>

lemma int_digits_place:
  "int_digits py s acc = Some n \<Longrightarrow> n = acc * 10 ^ length s + place_value py s"
proof (induction s arbitrary: acc)
  case Nil
  then show ?case by simp
next
  case (Cons c cs)
  from Cons.prems obtain d where d: "numeric_type_of py c = Decimal d"
    and run: "int_digits py cs (10 * acc + d) = Some n"
    by (cases "numeric_type_of py c") simp_all
  from Cons.IH [OF run] have "n = (10 * acc + d) * 10 ^ length cs + place_value py cs" .
  with d show ?case by (simp add: algebra_simps)
qed

lemma int_digits_Some:
  "(\<exists>n. int_digits py s acc = Some n) \<longleftrightarrow>
     list_all (\<lambda>c. digit_value (numeric_type_of py c) \<noteq> None) s"
proof (induction s arbitrary: acc)
  case Nil
  then show ?case by simp
next
  case (Cons c cs)
  then show ?case
    by (cases "numeric_type_of py c") auto
qed

lemma int_of_str_decimal:
  "decimal_str py s \<Longrightarrow> int_of_str py s = Inr (int (place_value py s))"
proof -
  assume d: "decimal_str py s"
  then have "list_all (\<lambda>c. digit_value (numeric_type_of py c) \<noteq> None) s"
    by (simp add: decimal_str_def)
  then obtain n where n: "int_digits py s 0 = Some n"
    using int_digits_Some [of py s 0] by blast
  from int_digits_place [OF n] have "n = place_value py s" by simp
  with d n show ?thesis
    by (auto simp: int_of_str_def decimal_str_def)
qed

lemma int_of_str_not_decimal:
  "\<not> decimal_str py s \<Longrightarrow> int_of_str py s = Inl (ValueError_int s)"
proof -
  assume d: "\<not> decimal_str py s"
  show ?thesis
  proof (cases "int_digits py s 0")
    case None
    then show ?thesis by (simp add: int_of_str_def)
  next
    case (Some n)
    then have "list_all (\<lambda>c. digit_value (numeric_type_of py c) \<noteq> None) s"
      using int_digits_Some [of py s 0] by blast
    with d show ?thesis
      by (auto simp: int_of_str_def decimal_str_def)
  qed
qed

lemma decimal_isdigit: "decimal_str py s \<Longrightarrow> isdigit py s"
proof -
  assume "decimal_str py s"
  then have ne: "s \<noteq> []"
    and all: "list_all (\<lambda>c. digit_value (numeric_type_of py c) \<noteq> None) s"
    by (simp_all add: decimal_str_def)
  have "is_digit_char py c" if "digit_value (numeric_type_of py c) \<noteq> None" for c
    using that by (cases "numeric_type_of py c") (simp_all add: is_digit_char_def)
  with all have "list_all (is_digit_char py) s"
    by (simp add: list_all_iff)
  with ne show ?thesis by (simp add: isdigit_def)
qed

lemma convert_ok:
  "admin_ok py a \<Longrightarrow> convert py a = Inr (as_number py a) \<and> isinstance_int (as_number py a)"
  by (cases a) (auto simp: convert_def admin_ok_def int_of_str_decimal dest: decimal_isdigit)

lemma convert_bad:
  "\<not> admin_ok py a \<Longrightarrow>
     convert py a = Inl (ValueError_int (case a of YStr s \<Rightarrow> s | _ \<Rightarrow> [])) \<or>
     convert py a = Inr a \<and> \<not> isinstance_int a"
  by (cases a) (auto simp: convert_def admin_ok_def int_of_str_not_decimal)

lemma check_admins_ok:
  "list_all (admin_ok py) as \<Longrightarrow> check_admins py as = Inr (map (as_number py) as)"
proof (induction as)
  case Nil
  then show ?case by simp
next
  case (Cons a as)
  from Cons.prems have ok: "admin_ok py a" and rest: "list_all (admin_ok py) as" by simp_all
  have "check_admins py as = Inr (map (as_number py) as)" by (rule Cons.IH [OF rest])
  with convert_ok [OF ok] show ?case
    by simp
qed

lemma check_admins_bad:
  "\<not> list_all (admin_ok py) as \<Longrightarrow> \<exists>e. check_admins py as = Inl e \<and> is_ValueError e"
proof (induction as)
  case Nil
  then show ?case by simp
next
  case (Cons a as)
  show ?case
  proof (cases "admin_ok py a")
    case True
    with Cons.prems have "\<not> list_all (admin_ok py) as" by simp
    from Cons.IH [OF this] obtain e where "check_admins py as = Inl e" "is_ValueError e"
      by blast
    with convert_ok [OF True] show ?thesis
      by simp
  next
    case False
    from convert_bad [OF False] show ?thesis
      by (auto)
  qed
qed


lemma verify_rejected:
  "config_rejected py data \<Longrightarrow> \<exists>e. verify py data = Inl e \<and> is_ValueError e"
proof (cases "isinstance_str (get data (ascii ''token''))")
  case False
  then show ?thesis by (simp add: verify_def)
next
  case True
  assume rej: "config_rejected py data"
  show ?thesis
  proof (cases "get data (ascii ''admins'')")
    case (YStr s)
    show ?thesis
    proof (cases "decimal_str py s")
      case dec: True
      with rej True YStr show ?thesis
        by (simp add: config_rejected_def admin_ok_def)
    next
      case False
      then have "int_of_str py s = Inl (ValueError_int s)" by (rule int_of_str_not_decimal)
      with True YStr show ?thesis
        by (simp add: verify_def get_def)
    qed
  next
    case (YList as)
    show ?thesis
    proof (cases "as = []")
      case True
      with \<open>isinstance_str (get data (ascii ''token''))\<close> YList show ?thesis
        by (simp add: verify_def)
    next
      case False
      with rej True YList have "\<not> list_all (admin_ok py) as"
        by (simp add: config_rejected_def)
      from check_admins_bad [OF this] obtain e
        where "check_admins py as = Inl e" "is_ValueError e" by blast
      with True YList False show ?thesis
        by (simp add: verify_def)
    qed
  qed (use rej True in \<open>simp_all add: verify_def config_rejected_def admin_ok_def get_def\<close>)
qed

lemma verify_accepted:
  "\<not> config_rejected py data \<Longrightarrow>
     \<exists>as. normalized_admins py (get data (ascii ''admins'')) = Some as \<and>
          verify py data = Inr (data(ascii ''admins'' \<mapsto> YList (map (as_number py) as)))"
proof -
  assume acc: "\<not> config_rejected py data"
  then have tok: "isinstance_str (get data (ascii ''token''))"
    by (simp add: config_rejected_def)
  show ?thesis
  proof (cases "get data (ascii ''admins'')")
    case (YStr s)
    with acc have dec: "decimal_str py s"
      by (auto simp: config_rejected_def split: if_splits)
    then have "int_of_str py s = Inr (int (place_value py s))" by (rule int_of_str_decimal)
    with tok YStr dec decimal_isdigit [OF dec] show ?thesis
      by (simp add: verify_def get_def convert_def)
  next
    case (YList as)
    with acc have "as \<noteq> []" and "list_all (admin_ok py) as"
      by (simp_all add: config_rejected_def)
    with tok YList check_admins_ok [of py as] show ?thesis
      by (simp add: verify_def)
  qed (use acc tok in \<open>simp_all add: verify_def config_rejected_def get_def convert_def\<close>)
qed

text \<open>
  C10, as \<^verbatim>\<open>load_config\<close> has it. The superscript two, U+00B2, passes
  \<^verbatim>\<open>isdigit\<close>: with a string token, admins that are the string of this one
  character are a string consisting only of digits, and so is such an entry in a list of
  admins. \<^verbatim>\<open>int\<close> does not convert it, and \<^verbatim>\<open>load_config\<close> raises the
  \<^verbatim>\<open>ValueError\<close> of \<^verbatim>\<open>int\<close> where the three conditions for one are not met.
  The same happens with a string of 4301 digits \<^verbatim>\<open>1\<close>.
\<close>

theorem digit_string_counterexample:
  "isinstance_str (YStr (ascii ''12:ab'')) \<and>
   isdigit interpreter_demo [178] \<and>
   load_config interpreter_demo (Document (YMap
     [(ascii ''token'', YStr (ascii ''12:ab'')), (ascii ''admins'', YStr [178])])) =
     Inl (ValueError_int [178]) \<and>
   load_config interpreter_demo (Document (YMap
     [(ascii ''token'', YStr (ascii ''12:ab'')),
      (ascii ''admins'', YList [YInt 5, YStr [178]])])) =
     Inl (ValueError_int [178]) \<and>
   isdigit interpreter_demo (replicate 4301 49) \<and>
   load_config interpreter_demo (Document (YMap
     [(ascii ''token'', YStr (ascii ''12:ab'')),
      (ascii ''admins'', YStr (replicate 4301 49))])) =
     Inl (ValueError_int (replicate 4301 49))"
  by (simp add: load_config_def verify_def get_def ascii_def convert_def isdigit_def
        is_digit_char_def int_of_str_def interpreter_demo_def list_all_iff)

text \<open>
  C10, amended. On a configuration that is a mapping, \<^verbatim>\<open>load_config\<close> normalises the
  admins before it validates them: it raises, and then a \<^verbatim>\<open>ValueError\<close>, exactly
  when the token is no string, the admins do not normalise to a non-empty list (a single
  integer or a decimal string counting as the list of that one number), or an entry is
  neither an integer nor a decimal string; otherwise it returns the mapping with the
  admins as the list of integers, each decimal string replaced by the number it stands
  for. A decimal string is a non-empty string of decimal digits no longer than the
  interpreter's limit; an integer is what \<^verbatim>\<open>isinstance(v, int)\<close> accepts.
\<close>

theorem load_config_admins:
  "case load_config py (Document (YMap kvs)) of
     Inl e \<Rightarrow> is_ValueError e \<and> config_rejected py (map_of (rev kvs))
   | Inr cfg \<Rightarrow>
       \<not> config_rejected py (map_of (rev kvs)) \<and>
       (\<exists>as. normalized_admins py (get (map_of (rev kvs)) (ascii ''admins'')) = Some as \<and>
             as \<noteq> [] \<and>
             cfg = (map_of (rev kvs))(ascii ''admins'' \<mapsto> YList (map (as_number py) as)) \<and>
             list_all isinstance_int (map (as_number py) as))"
proof (cases "config_rejected py (map_of (rev kvs))")
  case True
  from verify_rejected [OF True] obtain e
    where "verify py (map_of (rev kvs)) = Inl e" and "is_ValueError e" by blast
  with True show ?thesis by (simp add: load_config_def)
next
  case False
  from verify_accepted [OF False] obtain as
    where n: "normalized_admins py (get (map_of (rev kvs)) (ascii ''admins'')) = Some as"
      and v: "verify py (map_of (rev kvs)) =
                Inr ((map_of (rev kvs))(ascii ''admins'' \<mapsto> YList (map (as_number py) as)))"
    by blast
  from False n have ne: "as \<noteq> []" and ok: "list_all (admin_ok py) as"
    by (auto simp: config_rejected_def)
  have "list_all isinstance_int (map (as_number py) as)"
    using ok by (induction as) (auto simp: convert_ok)
  with False n v ne show ?thesis by (auto simp: load_config_def)
qed

theorem load_config_admins_witness:
  "load_config interpreter_demo (Document (YMap
     [(ascii ''token'', YStr (ascii ''12:ab'')),
      (ascii ''admins'', YList [YStr (ascii ''0042''), YInt 5, YStr [1635, 1639], YBool True])])) =
     Inr ((map_of (rev
       [(ascii ''token'', YStr (ascii ''12:ab'')),
        (ascii ''admins'', YList [YStr (ascii ''0042''), YInt 5, YStr [1635, 1639], YBool True])]))
          (ascii ''admins'' \<mapsto> YList [YInt 42, YInt 5, YInt 37, YBool True])) \<and>
   load_config interpreter_demo (Document (YMap
     [(ascii ''token'', YStr (ascii ''12:ab'')), (ascii ''admins'', YStr (ascii ''120''))])) =
     Inr ((map_of (rev
       [(ascii ''token'', YStr (ascii ''12:ab'')), (ascii ''admins'', YStr (ascii ''120''))]))
          (ascii ''admins'' \<mapsto> YList [YInt 120])) \<and>
   config_rejected interpreter_demo (map_of (rev
     [(ascii ''token'', YStr (ascii ''12:ab'')), (ascii ''admins'', YList [YStr (ascii ''x7'')])])) \<and>
   (\<exists>e. load_config interpreter_demo (Document (YMap
           [(ascii ''token'', YStr (ascii ''12:ab'')),
            (ascii ''admins'', YList [YStr (ascii ''x7'')])])) = Inl e \<and> is_ValueError e)"
  using load_config_admins [of interpreter_demo
          "[(ascii ''token'', YStr (ascii ''12:ab'')),
            (ascii ''admins'', YList [YStr (ascii ''0042''), YInt 5, YStr [1635, 1639], YBool True])]"]
        load_config_admins [of interpreter_demo
          "[(ascii ''token'', YStr (ascii ''12:ab'')), (ascii ''admins'', YStr (ascii ''120''))]"]
        load_config_admins [of interpreter_demo
          "[(ascii ''token'', YStr (ascii ''12:ab'')),
            (ascii ''admins'', YList [YStr (ascii ''x7'')])]"]
  by (auto simp: config_rejected_def get_def admin_ok_def ascii_def decimal_str_def
        interpreter_demo_def split: sum.splits)


subsection \<open>What a request and a log record leave alone\<close>

lemma send_frame:
  "send env c s = (r, s') \<Longrightarrow>
     timeout_count s' = timeout_count s \<and> chat_assoc s' = chat_assoc s \<and>
     log_records s' = log_records s"
  by (auto simp: send_def Let_def split: option.splits)

lemma send_admin_frame:
  "send_admin env mk s = (r, s') \<Longrightarrow>
     timeout_count s' = timeout_count s \<and> chat_assoc s' = chat_assoc s \<and>
     log_records s' = log_records s"
  by (auto simp: send_admin_def dest: send_frame split: sum.splits)

lemma logger_frame [simp]:
  "timeout_count (logger lv t s) = timeout_count s"
  "chat_assoc (logger lv t s) = chat_assoc s"
  "outbox (logger lv t s) = outbox s"
  by (simp_all add: logger_def)

lemma network_branch:
  assumes "classify err = NetworkTransient"
  shows "\<not> contains conflict_text (str_exc err)" "class_of err \<noteq> Unauthorized"
      "class_of err \<noteq> BadRequest"
      "class_of err = TimedOut \<or> isinstance_NetworkError (class_of err)"
  using assms by (auto simp: classify_def split: if_splits exc_class.splits)

subsection \<open>The branches of the callback\<close>

text \<open>
  C7. A failure classified as Unauthorized makes the callback write one log record and
  nothing else: it returns, no request goes to Telegram, and the counter and the chat
  associations stay as they were.
\<close>

theorem unauthorized_logs_only:
  "classify err = Unauthorized_category \<Longrightarrow>
     error env update err s =
       (Inr (), s\<lparr>log_records := log_records s @ [(ERROR, unauthorized_log update err)]\<rparr>)"
  by (auto simp: classify_def error_def logger_def split: if_splits exc_class.splits)

theorem unauthorized_logs_only_witness:
  "classify (Exc Unauthorized ''Forbidden: bot was blocked by the user'') =
     Unauthorized_category \<and>
   error (env_demo gateway_up) (Some (update_demo 42))
     (Exc Unauthorized ''Forbidden: bot was blocked by the user'')
     (channel_demo 3 [(''telegram#42'', ''wechat#group1'')]) =
   (Inr (), (channel_demo 3 [(''telegram#42'', ''wechat#group1'')])
      \<lparr>log_records := log_records (channel_demo 3 [(''telegram#42'', ''wechat#group1'')]) @
         [(ERROR, unauthorized_log (Some (update_demo 42))
                    (Exc Unauthorized ''Forbidden: bot was blocked by the user''))]\<rparr>)"
proof -
  have h: "classify (Exc Unauthorized ''Forbidden: bot was blocked by the user'') =
             Unauthorized_category"
    by (simp add: classify_def conflict_text_def)
  show ?thesis
    using h unauthorized_logs_only [OF h] by simp
qed

text \<open>
  C6. A failure classified as PollingConflict makes the callback log the conflict at
  critical severity and hand exactly one alert to Telegram, for the first admin; the
  counter and the chat associations stay as they were, and nothing else is done. The
  callback returns if Telegram takes the alert and raises Telegram's error if not.
\<close>

theorem polling_conflict_effects:
  assumes "classify err = PollingConflict" and "admins env = a # rest"
  shows "error env update err s =
           ((case gateway env (length (outbox s)) (BotManagerSend a conflict_msg Plain) of
               None \<Rightarrow> Inr () | Some e \<Rightarrow> Inl e),
            s\<lparr>log_records := log_records s @ [(CRITICAL, conflict_msg)],
              outbox := outbox s @ [(BotManagerSend a conflict_msg Plain,
                         gateway env (length (outbox s)) (BotManagerSend a conflict_msg Plain))]\<rparr>)"
  using assms
  by (auto simp: classify_def error_def logger_def send_admin_def admin0_def send_def Let_def
      split: if_splits exc_class.splits option.splits)

theorem polling_conflict_effects_witness:
  "classify (Exc TelegramError ''Conflict: terminated by other long poll or webhook (409)'') =
     PollingConflict \<and>
   admins (env_demo gateway_up) = [1001] \<and>
   error (env_demo gateway_up) None
     (Exc TelegramError ''Conflict: terminated by other long poll or webhook (409)'')
     (channel_demo 3 [(''telegram#42'', ''wechat#group1'')]) =
   (Inr (),
    \<lparr>timeout_count = 3, chat_assoc = [(''telegram#42'', ''wechat#group1'')],
     log_records = [(CRITICAL, conflict_msg)],
     outbox = [(BotManagerSend 1001 conflict_msg Plain, None)]\<rparr>)"
proof -
  have h: "classify (Exc TelegramError
               ''Conflict: terminated by other long poll or webhook (409)'') = PollingConflict"
    by (simp add: classify_def conflict_text_def)
  have a: "admins (env_demo gateway_up) = 1001 # []"
    by (simp add: env_demo_def)
  show ?thesis
    using h a polling_conflict_effects [OF h a, of None
        "channel_demo 3 [(''telegram#42'', ''wechat#group1'')]"]
    by (simp add: env_demo_def channel_demo_def gateway_up_def)
qed

lemma send_chat_assoc [simp]: "chat_assoc (snd (send env c s)) = chat_assoc s"
  using send_frame [of env c s] by (cases "send env c s") simp

lemma send_admin_chat_assoc [simp]: "chat_assoc (snd (send_admin env mk s)) = chat_assoc s"
  using send_admin_frame [of env mk s] by (cases "send_admin env mk s") simp

text \<open>
  C8. Whatever failure the callback handles, the chat associations are afterwards what
  they were before, unless the failure is classified as ConversationMigrated: no other
  branch adds or removes a row.
\<close>

theorem store_unchanged_unless_migrated:
  assumes "classify err \<noteq> ConversationMigrated"
  shows "chat_assoc (snd (error env update err s)) = chat_assoc s"
proof -
  consider (conflict) "classify err = PollingConflict"
    | (unauth) "classify err = Unauthorized_category"
    | (invalid) "classify err = InvalidRequest"
    | (network) "classify err = NetworkTransient"
    | (other) "classify err = Unclassified"
    using assms by (cases "classify err") auto
  then show ?thesis
  proof cases
    case conflict
    then show ?thesis
      by (simp add: classify_def error_def split: if_splits exc_class.splits)
  next
    case unauth
    then show ?thesis
      by (simp add: classify_def error_def split: if_splits exc_class.splits)
  next
    case invalid
    then show ?thesis
      by (simp add: classify_def error_def split: if_splits exc_class.splits)
  next
    case network
    note br = network_branch [OF network]
    show ?thesis
    proof (cases update)
      case None
      with br show ?thesis
        by (simp add: error_def Let_def)
    next
      case (Some u)
      show ?thesis
      proof (cases "message u")
        case None
        with br Some show ?thesis by (simp add: error_def Let_def)
      next
        case (Some m)
        with br \<open>update = Some u\<close> show ?thesis
          by (cases "send env (ReplyText (chat_id m) (dropped_text err) HTML)
                 (logger ERROR (network_log (timeout_count s + 1) (Some u) err)
                   (s\<lparr>timeout_count := timeout_count s + 1\<rparr>))")
             (auto simp: error_def Let_def split: sum.splits dest!: send_frame)
      qed
    qed
  next
    case other
    then have br: "\<not> contains conflict_text (str_exc err)" "class_of err \<noteq> Unauthorized"
      "class_of err \<noteq> BadRequest"
      "\<not> (class_of err = TimedOut \<or> isinstance_NetworkError (class_of err))"
      "\<And>n. class_of err \<noteq> ChatMigrated n"
      by (auto simp: classify_def split: if_splits exc_class.splits)
    then show ?thesis
      by (cases "send_admin env (\<lambda>a. BotSend a (unhandled_alert update err) HTML) s";
          cases "class_of err")
         (auto simp: error_def dest!: send_admin_frame split: sum.splits)
  qed
qed

theorem store_unchanged_unless_migrated_witness:
  "classify (Exc BadRequest ''Message is too long'') \<noteq> ConversationMigrated \<and>
   chat_assoc (snd (error (env_demo gateway_down) (Some (update_demo 42))
      (Exc BadRequest ''Message is too long'')
      (channel_demo 0 [(''telegram#42'', ''wechat#group1'')]))) =
     [(''telegram#42'', ''wechat#group1'')]"
proof -
  have h: "classify (Exc BadRequest ''Message is too long'') \<noteq> ConversationMigrated"
    by (simp add: classify_def conflict_text_def)
  show ?thesis
    using h store_unchanged_unless_migrated [OF h, of "env_demo gateway_down"
        "Some (update_demo 42)" "channel_demo 0 [(''telegram#42'', ''wechat#group1'')]"]
    by (simp add: channel_demo_def)
qed

text \<open>
  C9. The test for the conflict text comes before every test of the exception's class: an
  error whose text contains it is classified as PollingConflict and handled by the
  conflict branch alone, of whatever class it is (Unauthorized, BadRequest, NetworkError
  or any other) and whatever the update.
\<close>

theorem conflict_text_takes_precedence:
  "contains conflict_text m \<Longrightarrow>
     classify (Exc c m) = PollingConflict \<and>
     error env update (Exc c m) s =
       send_admin env (\<lambda>a. BotManagerSend a conflict_msg Plain) (logger CRITICAL conflict_msg s)"
  by (simp add: classify_def error_def)

theorem conflict_text_takes_precedence_witness:
  "contains conflict_text
     ''Unauthorized. Conflict: terminated by other long poll or webhook (409)'' \<and>
   classify (Exc Unauthorized
     ''Unauthorized. Conflict: terminated by other long poll or webhook (409)'') =
     PollingConflict \<and>
   error (env_demo gateway_up) (Some (update_demo 42))
     (Exc Unauthorized ''Unauthorized. Conflict: terminated by other long poll or webhook (409)'')
     (channel_demo 3 []) =
   (Inr (),
    \<lparr>timeout_count = 3, chat_assoc = [], log_records = [(CRITICAL, conflict_msg)],
     outbox = [(BotManagerSend 1001 conflict_msg Plain, None)]\<rparr>)"
proof -
  have h: "contains conflict_text
     ''Unauthorized. Conflict: terminated by other long poll or webhook (409)''"
    by (simp add: conflict_text_def)
  show ?thesis
    using h conflict_text_takes_precedence [OF h, of Unauthorized "env_demo gateway_up"
        "Some (update_demo 42)" "channel_demo 3 []"]
    by (simp add: env_demo_def channel_demo_def gateway_up_def send_admin_def admin0_def
          send_def logger_def Let_def)
qed

subsection \<open>Exceptions that leave the callback\<close>

text \<open>
  C5. A run of the callback on a timeout whose update has a message to reply to, with
  Telegram timing out on the reply as well: the counter is raised and the record logged,
  the reply is attempted, and its exception leaves the callback; the alert decision after
  it is not reached.
\<close>

theorem reply_failure_escapes:
  "error (env_demo gateway_replies_time_out) (Some (update_demo 42))
     (Exc TimedOut ''Timed out'') (channel_demo 4 []) =
   (Inl (Exc TimedOut ''Timed out''),
    \<lparr>timeout_count = 5, chat_assoc = [],
     log_records = [(ERROR, network_log 5 (Some (update_demo 42)) (Exc TimedOut ''Timed out''))],
     outbox = [(ReplyText 42 (dropped_text (Exc TimedOut ''Timed out'')) HTML,
                Some (Exc TimedOut ''Timed out''))]\<rparr>)"
  by (simp add: error_def conflict_text_def env_demo_def channel_demo_def update_demo_def
        gateway_replies_time_out_def isinstance_NetworkError_def send_def logger_def Let_def)

text \<open>
  C1. Three runs in which the callback raises instead of returning: a migration reported
  for an update that carries no message, an invalid request whose alert Telegram refuses,
  and a polling conflict whose alert Telegram refuses.
\<close>

theorem handler_raises:
  "fst (error (env_demo gateway_up) (Some callback_query_demo)
          (Exc (ChatMigrated (- 1002)) ''Group migrated to supergroup. New chat id: -1002'')
          (channel_demo 0 [])) =
     Inl (Exc AttributeError ''NoneType object has no attribute chat_id'') \<and>
   fst (error (env_demo gateway_down) (Some (update_demo 42))
          (Exc BadRequest ''Message is too long'') (channel_demo 0 [])) =
     Inl (Exc NetworkError ''Connection refused'') \<and>
   fst (error (env_demo gateway_down) None
          (Exc TelegramError ''Conflict: terminated by other long poll or webhook (409)'')
          (channel_demo 0 [])) =
     Inl (Exc NetworkError ''Connection refused'')"
  by (simp add: error_def conflict_text_def env_demo_def channel_demo_def update_demo_def
        callback_query_demo_def gateway_up_def gateway_down_def isinstance_NetworkError_def
        send_def send_admin_def admin0_def logger_def Let_def)

subsection \<open>Network errors: the alert that is not made\<close>

lemma str_int_10: "str_int 10 = ''10''"
  by code_simp

text \<open>
  C2. A run of the callback on a network error, the counter at 9 and the interval 5, for
  an update with a message to reply to. The counter goes to 10, a multiple of the
  interval. With Telegram timing out on the reply, the reply's exception leaves the
  callback and no operator alert is requested; with a Telegram that delivers the reply,
  the same run requests the alert reporting 10 network errors.
\<close>

theorem alert_skipped_when_reply_fails:
  "error (env_demo gateway_replies_time_out) (Some (update_demo 42))
     (Exc NetworkError ''Connection reset by peer'') (channel_demo 9 []) =
   (Inl (Exc TimedOut ''Timed out''),
    \<lparr>timeout_count = 10, chat_assoc = [],
     log_records = [(ERROR, network_log 10 (Some (update_demo 42))
                              (Exc NetworkError ''Connection reset by peer''))],
     outbox = [(ReplyText 42 (dropped_text (Exc NetworkError ''Connection reset by peer'')) HTML,
                Some (Exc TimedOut ''Timed out''))]\<rparr>) \<and>
   0 < network_error_prompt_interval (env_demo gateway_replies_time_out) \<and>
   (10::int) mod network_error_prompt_interval (env_demo gateway_replies_time_out) = 0 \<and>
   error (env_demo gateway_up) (Some (update_demo 42))
     (Exc NetworkError ''Connection reset by peer'') (channel_demo 9 []) =
   (Inr (),
    \<lparr>timeout_count = 10, chat_assoc = [],
     log_records = [(ERROR, network_log 10 (Some (update_demo 42))
                              (Exc NetworkError ''Connection reset by peer''))],
     outbox = [(ReplyText 42 (dropped_text (Exc NetworkError ''Connection reset by peer'')) HTML,
                None),
               (BotManagerSend 1001
                  (''<b>EFB Telegram Master channel</b>'' @ [CHR 0x0A] @
                   ''You may have a poor internet connection on your server. '' @
                   ''Currently 10 network errors are detected.'' @ [CHR 0x0A] @
                   ''For more details, please refer to the log.'') HTML,
                None)]\<rparr>)"
  by (simp add: error_def conflict_text_def env_demo_def channel_demo_def update_demo_def
        gateway_replies_time_out_def gateway_up_def isinstance_NetworkError_def send_def
        send_admin_def admin0_def logger_def Let_def network_alert_def nl_def str_int_10)

subsection \<open>Conversation keys and the table's operations\<close>

lemma digit_char_inj: "x < 10 \<Longrightarrow> y < 10 \<Longrightarrow> digit_char x = digit_char y \<Longrightarrow> x = y"
proof -
  assume x: "x < 10" and y: "y < 10" and e: "digit_char x = digit_char y"
  from e have "of_char (char_of (48 + x) :: char) = (of_char (char_of (48 + y) :: char) :: nat)"
    by (simp add: digit_char_def)
  with x y show ?thesis by simp
qed

lemma digit_char_not_minus: "x < 10 \<Longrightarrow> digit_char x \<noteq> CHR ''-''"
proof
  assume x: "x < 10" and e: "digit_char x = CHR ''-''"
  from e have "of_char (char_of (48 + x) :: char) = (of_char CHR ''-'' :: nat)"
    by (simp add: digit_char_def)
  with x show False by simp
qed

lemma str_nat_nonempty: "str_nat n \<noteq> []"
  by (subst str_nat.simps) simp

lemma str_nat_no_minus: "CHR ''-'' \<notin> set (str_nat n)"
proof (induction n rule: str_nat.induct)
  case (1 n)
  show ?case
  proof (cases "n < 10")
    case True
    then show ?thesis
      using digit_char_not_minus [of n] by (subst str_nat.simps) auto
  next
    case False
    then show ?thesis
      using 1 digit_char_not_minus [of "n mod 10"] by (subst str_nat.simps) auto
  qed
qed

lemma str_nat_inj: "str_nat a = str_nat b \<Longrightarrow> a = b"
proof (induction a arbitrary: b rule: str_nat.induct)
  case (1 a)
  show ?case
  proof (cases "a < 10")
    case a: True
    show ?thesis
    proof (cases "b < 10")
      case True
      with a "1.prems" show ?thesis
        by (auto simp: str_nat.simps [of a] str_nat.simps [of b] dest: digit_char_inj)
    next
      case False
      with a "1.prems" str_nat_nonempty [of "b div 10"] show ?thesis
        by (auto simp: str_nat.simps [of a] str_nat.simps [of b])
    qed
  next
    case a: False
    show ?thesis
    proof (cases "b < 10")
      case True
      with a "1.prems" str_nat_nonempty [of "a div 10"] show ?thesis
        by (auto simp: str_nat.simps [of a] str_nat.simps [of b])
    next
      case False
      with a "1.prems" have e: "str_nat (a div 10) = str_nat (b div 10)"
        and d: "digit_char (a mod 10) = digit_char (b mod 10)"
        by (auto simp: str_nat.simps [of a] str_nat.simps [of b])
      from "1.IH" [OF a e] have "a div 10 = b div 10" .
      moreover from d have "a mod 10 = b mod 10"
        by (rule digit_char_inj [rotated 2]) simp_all
      ultimately show ?thesis
        by (metis div_mult_mod_eq)
    qed
  qed
qed

lemma str_int_inj: "str_int a = str_int b \<Longrightarrow> a = b"
proof -
  assume e: "str_int a = str_int b"
  have no: "CHR ''-'' # xs \<noteq> str_nat n" for xs n
    using str_nat_no_minus [of n] by (metis list.set_intros(1))
  show ?thesis
  proof (cases "a < 0"; cases "b < 0")
    assume "a < 0" "b < 0"
    with e have "nat (- a) = nat (- b)" by (auto simp: str_int_def dest: str_nat_inj)
    with \<open>a < 0\<close> \<open>b < 0\<close> show ?thesis by simp
  next
    assume "a < 0" "\<not> b < 0"
    with e no show ?thesis by (auto simp: str_int_def)
  next
    assume "\<not> a < 0" "b < 0"
    with e no [of "str_nat (nat (- b))" "nat a"] show ?thesis by (auto simp: str_int_def)
  next
    assume "\<not> a < 0" "\<not> b < 0"
    with e have "nat a = nat b" by (auto simp: str_int_def dest: str_nat_inj)
    with \<open>\<not> a < 0\<close> \<open>\<not> b < 0\<close> show ?thesis by simp
  qed
qed

lemma chat_id_to_str_inj: "chat_id_to_str c a = chat_id_to_str c b \<Longrightarrow> a = b"
  by (simp add: chat_id_to_str_def str_int_inj)

lemma find_by_slave_remove_same [simp]: "find_by_slave i (remove_chat_assoc i rows) = None"
  by (induction rows) (auto simp: find_by_slave_def remove_chat_assoc_def)

lemma find_by_slave_remove_other:
  "j \<noteq> i \<Longrightarrow> find_by_slave j (remove_chat_assoc i rows) = find_by_slave j rows"
  by (induction rows) (auto simp: find_by_slave_def remove_chat_assoc_def)

lemma find_by_slave_append:
  "find_by_slave j (rows @ [(m, i)]) =
     (case find_by_slave j rows of Some x \<Rightarrow> Some x
      | None \<Rightarrow> if j = i then Some m else None)"
  by (induction rows) (auto simp: find_by_slave_def)

lemma add_after_remove:
  "add_chat_assoc m i (remove_chat_assoc i rows) = Inr (remove_chat_assoc i rows @ [(m, i)])"
  by (simp add: add_chat_assoc_def)

lemma migrate_row_states_eq:
  "migrate_row_states m i rows =
     [rows, remove_chat_assoc i rows, remove_chat_assoc i rows @ [(m, i)]]"
  by (simp add: migrate_row_states_def Let_def add_after_remove)


lemma migrate_loop_step:
  "migrate_loop env old_id new_id (i # rest) count s =
     migrate_loop env old_id new_id rest (count + 1)
       ((logger DEBUG (migrating_log i old_id new_id) s)
          \<lparr>chat_assoc :=
             last (migrate_row_states (chat_id_to_str (channel_id env) new_id) i (chat_assoc s))\<rparr>)"
  by (simp add: Let_def logger_def add_after_remove migrate_row_states_eq)

subsection \<open>One row on its way to the new master\<close>

text \<open>
  C4, as the callback has it. While the row of \<open>''wechat#group1''\<close> is migrated from
  \<open>''telegram#100''\<close> to \<open>''telegram#200''\<close>, a reader of the table between
  \<^verbatim>\<open>remove_chat_assoc\<close> and \<^verbatim>\<open>add_chat_assoc\<close> finds no row for it.
\<close>

theorem row_absent_counterexample:
  "map (find_by_slave ''wechat#group1'')
     (migrate_row_states ''telegram#200'' ''wechat#group1''
        [(''telegram#100'', ''wechat#group1'')]) =
   [Some ''telegram#100'', None, Some ''telegram#200'']"
  by (simp add: migrate_row_states_eq find_by_slave_def remove_chat_assoc_def)


text \<open>
  C4, amended. The migration of one row is two operations on the table, one after the
  other: a reader sees the row of the slave ref under its old master before the removal,
  no row between the removal and the insertion, and the row under the new master after the
  insertion; the row of every other slave ref is seen unchanged throughout.
\<close>

theorem row_migration_states:
  "find_by_slave i rows = Some old_uid \<Longrightarrow>
     map (find_by_slave i) (migrate_row_states new_uid i rows) =
       [Some old_uid, None, Some new_uid] \<and>
     (j \<noteq> i \<longrightarrow>
        map (find_by_slave j) (migrate_row_states new_uid i rows) =
          [find_by_slave j rows, find_by_slave j rows, find_by_slave j rows])"
  by (auto simp: migrate_row_states_eq find_by_slave_append find_by_slave_remove_other
        split: option.splits)

theorem row_migration_states_witness:
  "find_by_slave ''wechat#group1''
     [(''telegram#100'', ''wechat#group1''), (''telegram#100'', ''qq#7'')] =
     Some ''telegram#100'' \<and>
   map (find_by_slave ''wechat#group1'')
     (migrate_row_states ''telegram#200'' ''wechat#group1''
        [(''telegram#100'', ''wechat#group1''), (''telegram#100'', ''qq#7'')]) =
     [Some ''telegram#100'', None, Some ''telegram#200''] \<and>
   map (find_by_slave ''qq#7'')
     (migrate_row_states ''telegram#200'' ''wechat#group1''
        [(''telegram#100'', ''wechat#group1''), (''telegram#100'', ''qq#7'')]) =
     [Some ''telegram#100'', Some ''telegram#100'', Some ''telegram#100'']"
proof -
  have h: "find_by_slave ''wechat#group1''
     [(''telegram#100'', ''wechat#group1''), (''telegram#100'', ''qq#7'')] =
     Some ''telegram#100''"
    by (simp add: find_by_slave_def)
  have o: "find_by_slave ''qq#7''
     [(''telegram#100'', ''wechat#group1''), (''telegram#100'', ''qq#7'')] =
     Some ''telegram#100''"
    by (simp add: find_by_slave_def)
  show ?thesis
    using h row_migration_states [OF h, of "''telegram#200''" "''qq#7''"]
    by (simp add: o)
qed


subsection \<open>The same migration handled twice\<close>

lemma migrate_loop_result:
  "migrate_loop env old_id new_id moved count s =
     (Inr (count + int (length moved)),
      s\<lparr>log_records := log_records s @ map (\<lambda>i. (DEBUG, migrating_log i old_id new_id)) moved,
        chat_assoc := foldl (\<lambda>rows i. remove_chat_assoc i rows @
                               [(chat_id_to_str (channel_id env) new_id, i)])
                        (chat_assoc s) moved\<rparr>)"
proof (induction moved arbitrary: count s)
  case Nil
  then show ?case by simp
next
  case (Cons i moved)
  show ?case
    by (simp add: Let_def logger_def add_after_remove Cons.IH)
qed

lemma find_by_slave_step:
  "find_by_slave j (remove_chat_assoc i rows @ [(new_uid, i)]) =
      (if j = i then Some new_uid else find_by_slave j rows)"
  by (cases "j = i")
     (simp_all add: find_by_slave_append find_by_slave_remove_other split: option.splits)

lemma find_by_slave_migrated:
  "find_by_slave j (foldl (\<lambda>rows i. remove_chat_assoc i rows @ [(new_uid, i)]) rows moved) =
     (if j \<in> set moved then Some new_uid else find_by_slave j rows)"
proof (induction moved arbitrary: rows)
  case Nil
  then show ?case by simp
next
  case (Cons i moved)
  show ?case
    by (simp add: Cons.IH find_by_slave_step)
qed

lemma row_of_migrated:
  "r \<in> set (foldl (\<lambda>rows i. remove_chat_assoc i rows @ [(new_uid, i)]) rows moved) \<Longrightarrow>
     (r \<in> set rows \<and> snd r \<notin> set moved) \<or> (fst r = new_uid \<and> snd r \<in> set moved)"
proof (induction moved arbitrary: rows)
  case Nil
  then show ?case by simp
next
  case (Cons i moved)
  from Cons.prems have
    "r \<in> set (foldl (\<lambda>rows i. remove_chat_assoc i rows @ [(new_uid, i)])
                (remove_chat_assoc i rows @ [(new_uid, i)]) moved)"
    by simp
  from Cons.IH [OF this] have
    "(r \<in> set (remove_chat_assoc i rows @ [(new_uid, i)]) \<and> snd r \<notin> set moved) \<or>
     (fst r = new_uid \<and> snd r \<in> set moved)" .
  then show ?case
  proof
    assume a: "r \<in> set (remove_chat_assoc i rows @ [(new_uid, i)]) \<and> snd r \<notin> set moved"
    then have "(r \<in> set rows \<and> snd r \<noteq> i) \<or> r = (new_uid, i)"
      by (simp add: remove_chat_assoc_def) blast
    with a show ?thesis by auto
  next
    assume "fst r = new_uid \<and> snd r \<in> set moved"
    then show ?thesis by simp
  qed
qed

lemma get_chat_assoc_empty: "\<forall>r \<in> set xs. fst r \<noteq> m \<Longrightarrow> get_chat_assoc m xs = []"
  by (simp add: get_chat_assoc_def filter_empty_conv)

lemma none_left:
  assumes "old_uid \<noteq> new_uid"
  shows "get_chat_assoc old_uid
           (foldl (\<lambda>rows i. remove_chat_assoc i rows @ [(new_uid, i)]) rows
              (get_chat_assoc old_uid rows)) = []"
proof -
  have "fst r \<noteq> old_uid"
    if r: "r \<in> set (foldl (\<lambda>rows i. remove_chat_assoc i rows @ [(new_uid, i)]) rows
              (get_chat_assoc old_uid rows))" for r
  proof
    assume o: "fst r = old_uid"
    from row_of_migrated [OF r] o assms
    have "r \<in> set rows" and n: "snd r \<notin> set (get_chat_assoc old_uid rows)" by auto
    with o have "snd r \<in> snd ` set (filter (\<lambda>r. fst r = old_uid) rows)" by simp
    with n show False by (simp add: get_chat_assoc_def)
  qed
  then show ?thesis
    by (intro get_chat_assoc_empty ballI)
qed

lemma migrated_run:
  assumes "message u = Some m"
    and "\<not> contains conflict_text text"
    and "moved = get_chat_assoc (chat_id_to_str (channel_id env) (chat_id m)) (chat_assoc s)"
    and "confirmation = BotSend new_id (migration_text (int (length moved))) Plain"
  shows "error env (Some u) (Exc (ChatMigrated new_id) text) s =
     ((case gateway env (length (outbox s)) confirmation of None \<Rightarrow> Inr () | Some e \<Rightarrow> Inl e),
      s\<lparr>log_records := log_records s @
           map (\<lambda>i. (DEBUG, migrating_log i (chat_id m) new_id)) moved,
        chat_assoc := foldl (\<lambda>rows i. remove_chat_assoc i rows @
                               [(chat_id_to_str (channel_id env) new_id, i)])
                        (chat_assoc s) moved,
        outbox := outbox s @ [(confirmation, gateway env (length (outbox s)) confirmation)]\<rparr>)"
proof -
  have loop: "migrate_loop env (chat_id m) new_id moved 0 s =
     (Inr (int (length moved)),
      s\<lparr>log_records := log_records s @
           map (\<lambda>i. (DEBUG, migrating_log i (chat_id m) new_id)) moved,
        chat_assoc := foldl (\<lambda>rows i. remove_chat_assoc i rows @
                               [(chat_id_to_str (channel_id env) new_id, i)])
                        (chat_assoc s) moved\<rparr>)"
    by (simp add: migrate_loop_result)
  have "error env (Some u) (Exc (ChatMigrated new_id) text) s =
      send env confirmation
        (s\<lparr>log_records := log_records s @
           map (\<lambda>i. (DEBUG, migrating_log i (chat_id m) new_id)) moved,
        chat_assoc := foldl (\<lambda>rows i. remove_chat_assoc i rows @
                               [(chat_id_to_str (channel_id env) new_id, i)])
                        (chat_assoc s) moved\<rparr>)"
    using assms(1,2) loop
    by (simp add: error_def isinstance_NetworkError_def Let_def
          assms(3) [symmetric] assms(4) [symmetric])
  then show ?thesis
    by (cases "gateway env (length (outbox s)) confirmation") (simp_all add: send_def Let_def)
qed

lemma uid_100: "chat_id_to_str ''telegram'' 100 = ''telegram#100''"
  by code_simp

lemma uid_200: "chat_id_to_str ''telegram'' 200 = ''telegram#200''"
  by code_simp


text \<open>
  The same migration event, from the conversation \<open>old_id\<close> of the update's message to
  \<open>new_id\<close>, handled twice in a row, whatever Telegram answers. The first run puts every
  slave chat bound to the old conversation (\<open>moved\<close>) under the new one, leaves the other
  rows as a reader sees them, leaves no row under the old conversation, and requests the
  confirmation with their number. The second run finds nothing to move, leaves the table
  as it is and requests the confirmation with the count 0. Each run raises what Telegram
  raises on its confirmation.
\<close>

lemma migration_twice:
  assumes "old_id \<noteq> new_id"
    and "message u = Some m" and "chat_id m = old_id"
    and "\<not> contains conflict_text text"
    and "err = Exc (ChatMigrated new_id) text"
    and "old_uid = chat_id_to_str (channel_id env) old_id"
    and "new_uid = chat_id_to_str (channel_id env) new_id"
    and "moved = get_chat_assoc old_uid (chat_assoc s)"
    and "first = error env (Some u) err s"
    and "second = error env (Some u) err (snd first)"
  shows "outbox (snd first) =
           outbox s @ [(BotSend new_id (migration_text (int (length moved))) Plain,
                        gateway env (length (outbox s))
                          (BotSend new_id (migration_text (int (length moved))) Plain))] \<and>
         fst first =
           (case gateway env (length (outbox s))
                   (BotSend new_id (migration_text (int (length moved))) Plain) of
              None \<Rightarrow> Inr () | Some e \<Rightarrow> Inl e) \<and>
         (\<forall>i \<in> set moved. find_by_slave i (chat_assoc (snd first)) = Some new_uid) \<and>
         (\<forall>j. j \<notin> set moved \<longrightarrow>
              find_by_slave j (chat_assoc (snd first)) = find_by_slave j (chat_assoc s)) \<and>
         get_chat_assoc old_uid (chat_assoc (snd first)) = [] \<and>
         outbox (snd second) =
           outbox (snd first) @ [(BotSend new_id (migration_text 0) Plain,
                        gateway env (length (outbox (snd first)))
                          (BotSend new_id (migration_text 0) Plain))] \<and>
         fst second =
           (case gateway env (length (outbox (snd first)))
                   (BotSend new_id (migration_text 0) Plain) of
              None \<Rightarrow> Inr () | Some e \<Rightarrow> Inl e) \<and>
         chat_assoc (snd second) = chat_assoc (snd first) \<and>
         (\<forall>i \<in> set moved. find_by_slave i (chat_assoc (snd second)) = Some new_uid)"
proof -
  have uid: "old_uid \<noteq> new_uid"
    using assms(1,6,7) by (auto dest: chat_id_to_str_inj)
  have m: "moved = get_chat_assoc (chat_id_to_str (channel_id env) (chat_id m)) (chat_assoc s)"
    using assms(3,6,8) by simp
  note run1 = migrated_run [OF assms(2,4) m refl, of new_id]
  have first: "first = error env (Some u) (Exc (ChatMigrated new_id) text) s"
    using assms(5,9) by simp
  have rows1: "chat_assoc (snd first) =
      foldl (\<lambda>rows i. remove_chat_assoc i rows @ [(new_uid, i)]) (chat_assoc s) moved"
    unfolding first run1 using assms(7) by simp
  have out1: "outbox (snd first) =
           outbox s @ [(BotSend new_id (migration_text (int (length moved))) Plain,
                        gateway env (length (outbox s))
                          (BotSend new_id (migration_text (int (length moved))) Plain))]"
    unfolding first run1 by simp
  have res1: "fst first =
           (case gateway env (length (outbox s))
                   (BotSend new_id (migration_text (int (length moved))) Plain) of
              None \<Rightarrow> Inr () | Some e \<Rightarrow> Inl e)"
    unfolding first run1 by simp
  have left: "get_chat_assoc old_uid (chat_assoc (snd first)) = []"
    unfolding rows1 assms(8) by (rule none_left [OF uid])
  then have m2: "[] = get_chat_assoc (chat_id_to_str (channel_id env) (chat_id m))
                        (chat_assoc (snd first))"
    using assms(3,6) by simp
  note run2 = migrated_run [OF assms(2,4) m2 refl, of new_id]
  have second: "second = error env (Some u) (Exc (ChatMigrated new_id) text) (snd first)"
    using assms(5,10) by simp
  have rows2: "chat_assoc (snd second) = chat_assoc (snd first)"
    unfolding second run2 by simp
  have out2: "outbox (snd second) =
           outbox (snd first) @ [(BotSend new_id (migration_text 0) Plain,
                        gateway env (length (outbox (snd first)))
                          (BotSend new_id (migration_text 0) Plain))]"
    unfolding second run2 by simp
  have res2: "fst second =
           (case gateway env (length (outbox (snd first)))
                   (BotSend new_id (migration_text 0) Plain) of
              None \<Rightarrow> Inr () | Some e \<Rightarrow> Inl e)"
    unfolding second run2 by simp
  have moved1: "\<forall>i \<in> set moved. find_by_slave i (chat_assoc (snd first)) = Some new_uid"
    by (simp add: rows1 find_by_slave_migrated)
  have other1: "\<forall>j. j \<notin> set moved \<longrightarrow>
              find_by_slave j (chat_assoc (snd first)) = find_by_slave j (chat_assoc s)"
    by (simp add: rows1 find_by_slave_migrated)
  from out1 res1 moved1 other1 left out2 res2 rows2 show ?thesis
    by simp
qed

lemma migrating_logs:
  "migrating_log ''wechat#group1'' 100 200 =
     ''Migrating slave chat wechat#group1 from Telegram chat 100 to 200.''"
  "migrating_log ''qq#7'' 100 200 = ''Migrating slave chat qq#7 from Telegram chat 100 to 200.''"
  by code_simp+

lemma migration_texts:
  "migration_text 2 =
     ''Chat migration detected.All remote chats (2) are now linked to this new group.''"
  "migration_text 0 =
     ''Chat migration detected.All remote chats (0) are now linked to this new group.''"
  by code_simp+

text \<open>
  C3. A migration event from conversation 100 to conversation 200, delivered twice, with
  two slave chats bound to conversation 100 and a Telegram that delivers the first
  confirmation and refuses the second. The first run moves the two rows, requests the
  confirmation reporting 2 and returns. The second run, on the state the first left,
  moves nothing, requests the confirmation reporting 0, and raises what Telegram raised
  on it: the request is made outside any \<^verbatim>\<open>try\<close>. The rows stay bound to
  conversation 200.
\<close>

theorem second_confirmation_raises:
  "error (env_demo gateway_first_only) (Some (update_demo 100))
     (Exc (ChatMigrated 200) ''Group migrated to supergroup. New chat id: 200'')
     (channel_demo 0
        [(''telegram#100'', ''wechat#group1''), (''telegram#555'', ''wechat#other''),
         (''telegram#100'', ''qq#7'')]) =
   (Inr (),
    \<lparr>timeout_count = 0,
     chat_assoc = [(''telegram#555'', ''wechat#other''), (''telegram#200'', ''wechat#group1''),
                   (''telegram#200'', ''qq#7'')],
     log_records =
       [(DEBUG, ''Migrating slave chat wechat#group1 from Telegram chat 100 to 200.''),
        (DEBUG, ''Migrating slave chat qq#7 from Telegram chat 100 to 200.'')],
     outbox =
       [(BotSend 200
           ''Chat migration detected.All remote chats (2) are now linked to this new group.''
           Plain, None)]\<rparr>) \<and>
   error (env_demo gateway_first_only) (Some (update_demo 100))
     (Exc (ChatMigrated 200) ''Group migrated to supergroup. New chat id: 200'')
     \<lparr>timeout_count = 0,
      chat_assoc = [(''telegram#555'', ''wechat#other''), (''telegram#200'', ''wechat#group1''),
                    (''telegram#200'', ''qq#7'')],
      log_records =
        [(DEBUG, ''Migrating slave chat wechat#group1 from Telegram chat 100 to 200.''),
         (DEBUG, ''Migrating slave chat qq#7 from Telegram chat 100 to 200.'')],
      outbox =
        [(BotSend 200
            ''Chat migration detected.All remote chats (2) are now linked to this new group.''
            Plain, None)]\<rparr> =
   (Inl (Exc NetworkError ''Connection refused''),
    \<lparr>timeout_count = 0,
     chat_assoc = [(''telegram#555'', ''wechat#other''), (''telegram#200'', ''wechat#group1''),
                   (''telegram#200'', ''qq#7'')],
     log_records =
       [(DEBUG, ''Migrating slave chat wechat#group1 from Telegram chat 100 to 200.''),
        (DEBUG, ''Migrating slave chat qq#7 from Telegram chat 100 to 200.'')],
     outbox =
       [(BotSend 200
           ''Chat migration detected.All remote chats (2) are now linked to this new group.''
           Plain, None),
        (BotSend 200
           ''Chat migration detected.All remote chats (0) are now linked to this new group.''
           Plain, Some (Exc NetworkError ''Connection refused''))]\<rparr>)"
  by (simp add: error_def conflict_text_def env_demo_def channel_demo_def update_demo_def
        gateway_first_only_def isinstance_NetworkError_def send_def logger_def Let_def
        uid_100 uid_200 get_chat_assoc_def remove_chat_assoc_def add_chat_assoc_def
        find_by_slave_def migrating_logs migration_texts)

end
